theory Spec2Isabelle
  imports Main
begin

section \<open>The settings store\<close>

text \<open>
  \<^verbatim>\<open>conf.ts\<close> reads every setting through \<^verbatim>\<open>this.config.get<T>(key)\<close> of the
  host's \<^verbatim>\<open>WorkspaceConfiguration\<close>, which answers with the stored value or with
  \<^verbatim>\<open>undefined\<close>. The store is read at the type the accessor declares: a key read
  with \<^verbatim>\<open>get<string>\<close> holds a string or is unset, a key read with
  \<^verbatim>\<open>get<boolean>\<close> holds a boolean or is unset. \<open>None\<close> stands for
  \<^verbatim>\<open>undefined\<close> and for \<^verbatim>\<open>null\<close>: the code tells them apart nowhere (its one
  test is \<^verbatim>\<open>!= null\<close>, which both fail, and a property read on either throws).
  JavaScript strings are lists of characters; the code only asks whether a string is
  empty, whether it starts with a dot, and drops its first character.
\<close>

record WorkspaceConfiguration =
  strings :: "string \<rightharpoonup> string"
  booleans :: "string \<rightharpoonup> bool"

definition get_string :: "WorkspaceConfiguration \<Rightarrow> string \<Rightarrow> string option" where
  "get_string config key = strings config key"

definition get_boolean :: "WorkspaceConfiguration \<Rightarrow> string \<Rightarrow> bool option" where
  "get_boolean config key = booleans config key"

text \<open>
  An exception thrown synchronously. The only one this code can raise is the
  \<^verbatim>\<open>TypeError\<close> of a property read on \<^verbatim>\<open>undefined\<close>.
\<close>

datatype js_error = TypeError

text \<open>What the extension reads from its host besides the settings.\<close>

record host =
  homedir :: string
  cwd :: string
  extensionPath :: "string option"

section \<open>Paths\<close>

text \<open>
  The code builds every path with \<^verbatim>\<open>Path.resolve\<close> and \<^verbatim>\<open>Path.join\<close> of Node's
  \<^verbatim>\<open>path\<close> module. They are modelled in their POSIX form: a path is cut at its
  slashes, empty and \<^verbatim>\<open>.\<close> segments are dropped, a \<^verbatim>\<open>..\<close> segment removes the
  segment before it (or is kept, in a relative path with nothing left to remove), and
  the segments are put together again.
\<close>

fun split_slash :: "string \<Rightarrow> string list" where
  "split_slash [] = [[]]"
| "split_slash (c # cs) =
     (if c = CHR ''/'' then [] # split_slash cs
      else (case split_slash cs of
              [] \<Rightarrow> [[c]]
            | s # ss \<Rightarrow> (c # s) # ss))"

fun join_slash :: "string list \<Rightarrow> string" where
  "join_slash [] = []"
| "join_slash [s] = s"
| "join_slash (s # t # ss) = s @ CHR ''/'' # join_slash (t # ss)"

text \<open>The second argument holds the segments kept so far, the last one first.\<close>

fun norm_segs :: "bool \<Rightarrow> string list \<Rightarrow> string list \<Rightarrow> string list" where
  "norm_segs allowAboveRoot res [] = rev res"
| "norm_segs allowAboveRoot res (s # ss) =
     (if s = [] \<or> s = ''.'' then norm_segs allowAboveRoot res ss
      else if s = ''..'' then
        (if res \<noteq> [] \<and> hd res \<noteq> ''..'' then norm_segs allowAboveRoot (tl res) ss
         else if allowAboveRoot then norm_segs allowAboveRoot (''..'' # res) ss
         else norm_segs allowAboveRoot res ss)
      else norm_segs allowAboveRoot (s # res) ss)"

definition normalizeString :: "string \<Rightarrow> bool \<Rightarrow> string" where
  "normalizeString path allowAboveRoot =
     join_slash (norm_segs allowAboveRoot [] (split_slash path))"

definition isAbsolute :: "string \<Rightarrow> bool" where
  "isAbsolute path = (path \<noteq> [] \<and> hd path = CHR ''/'')"

text \<open>
  \<^verbatim>\<open>Path.resolve\<close> walks its arguments from the last to the first and then the working
  directory, skipping empty ones, until the path built is absolute. The list given to
  \<open>resolve_loop\<close> is in that order.
\<close>

fun resolve_loop :: "string list \<Rightarrow> string \<Rightarrow> string \<times> bool" where
  "resolve_loop [] resolvedPath = (resolvedPath, False)"
| "resolve_loop (path # rest) resolvedPath =
     (if path = [] then resolve_loop rest resolvedPath
      else if isAbsolute path then (path @ CHR ''/'' # resolvedPath, True)
      else resolve_loop rest (path @ CHR ''/'' # resolvedPath))"

definition path_resolve :: "host \<Rightarrow> string list \<Rightarrow> string" where
  "path_resolve h args =
     (case resolve_loop (rev args @ [cwd h]) [] of
        (resolvedPath, resolvedAbsolute) \<Rightarrow>
          (let normalized = normalizeString resolvedPath (\<not> resolvedAbsolute)
           in if resolvedAbsolute then CHR ''/'' # normalized
              else if normalized \<noteq> [] then normalized else ''.''))"

definition path_normalize :: "string \<Rightarrow> string" where
  "path_normalize path =
     (if path = [] then ''.''
      else
        (let trailingSeparator = (last path = CHR ''/'');
             p = normalizeString path (\<not> isAbsolute path)
         in if p = [] then
              (if isAbsolute path then ''/'' else if trailingSeparator then ''./'' else ''.'')
            else (let q = (if trailingSeparator then p @ ''/'' else p)
                  in if isAbsolute path then CHR ''/'' # q else q)))"

definition path_join :: "string list \<Rightarrow> string" where
  "path_join args =
     (let joined = join_slash (filter (\<lambda>arg. arg \<noteq> []) args)
      in if joined = [] then ''.'' else path_normalize joined)"

section \<open>The accessors of the settings\<close>

text \<open>
  \<^verbatim>\<open>getLocale\<close> (lines 44-47) reads \<^verbatim>\<open>locale.length\<close>: on an unset value this
  throws.
\<close>

definition getLocale :: "WorkspaceConfiguration \<Rightarrow> js_error + string" where
  "getLocale config =
     (case get_string config ''locale'' of
        None \<Rightarrow> Inl TypeError
      | Some locale \<Rightarrow> Inr (if length locale > 0 then locale else ''en-US''))"

definition isOpenInNewEditorGroup :: "WorkspaceConfiguration \<Rightarrow> bool option" where
  "isOpenInNewEditorGroup config = get_boolean config ''openInNewEditorGroup''"

text \<open>\<^verbatim>\<open>isDevEnabled\<close> (lines 53-56): \<^verbatim>\<open>(dev) ? dev : false\<close>; an unset value is falsy.\<close>

definition isDevEnabled :: "WorkspaceConfiguration \<Rightarrow> bool" where
  "isDevEnabled config =
     (case get_boolean config ''dev'' of
        None \<Rightarrow> False
      | Some dev \<Rightarrow> (if dev then dev else False))"

text \<open>\<^verbatim>\<open>getBasePath\<close> (lines 58-68) reads \<^verbatim>\<open>base.length\<close>.\<close>

definition getBasePath :: "WorkspaceConfiguration \<Rightarrow> host \<Rightarrow> js_error + string" where
  "getBasePath config h =
     (case get_string config ''base'' of
        None \<Rightarrow> Inl TypeError
      | Some base \<Rightarrow>
          (if length base > 0 then Inr (path_resolve h [base])
           else Inr (path_resolve h [homedir h, ''Journal''])))"

text \<open>
  \<^verbatim>\<open>getFileExtension\<close> (lines 133-137) calls \<^verbatim>\<open>ext.startsWith\<close>, then takes
  \<^verbatim>\<open>ext.substring(1, ext.length)\<close>.
\<close>

definition startsWith :: "string \<Rightarrow> string \<Rightarrow> bool" where
  "startsWith s pre = (take (length pre) s = pre)"

definition substring :: "string \<Rightarrow> nat \<Rightarrow> nat \<Rightarrow> string" where
  "substring s i j = take (max i j - min i j) (drop (min i j) s)"

definition getFileExtension :: "WorkspaceConfiguration \<Rightarrow> js_error + string" where
  "getFileExtension config =
     (case get_string config ''ext'' of
        None \<Rightarrow> Inl TypeError
      | Some ext0 \<Rightarrow>
          (let ext = (if startsWith ext0 ''.'' then substring ext0 1 (length ext0) else ext0)
           in Inr (if length ext > 0 then ext else ''md'')))"

text \<open>
  The template accessors (lines 175-190). The class \<^verbatim>\<open>TemplateInfo\<close> (lines 27-29)
  has the two public fields \<^verbatim>\<open>Template\<close> and \<^verbatim>\<open>After\<close>, each what
  \<^verbatim>\<open>get<string>\<close> answered. Which class a returned value belongs to is a property of
  the value at run time, so the accessors return a tagged value. The expression
  statement \<^verbatim>\<open>this.getIn\<close> at line 176 reads a property that does not exist and
  drops the result.
\<close>

record TemplateInfo =
  Template :: "string option"
  After :: "string option"

datatype js_value = JString "string option" | JTemplateInfo TemplateInfo

fun isTemplateInfo :: "js_value \<Rightarrow> bool" where
  "isTemplateInfo (JTemplateInfo t) = True"
| "isTemplateInfo (JString s) = False"

definition getMemoTemplate :: "WorkspaceConfiguration \<Rightarrow> js_value" where
  "getMemoTemplate config = JString (get_string config ''tpl-memo'')"

definition getNotesTemplate :: "WorkspaceConfiguration \<Rightarrow> js_value" where
  "getNotesTemplate config =
     JTemplateInfo \<lparr>Template = get_string config ''tpl-files'',
                    After = get_string config ''tpl-files-after''\<rparr>"

definition getTaskTemplate :: "WorkspaceConfiguration \<Rightarrow> js_value" where
  "getTaskTemplate config =
     JTemplateInfo \<lparr>Template = get_string config ''tpl-task'',
                    After = get_string config ''tpl-task-after''\<rparr>"

definition getTodoTemplate :: "WorkspaceConfiguration \<Rightarrow> js_value" where
  "getTodoTemplate config =
     JTemplateInfo \<lparr>Template = get_string config ''tpl-todo'',
                    After = get_string config ''tpl-todo-after''\<rparr>"

section \<open>The file system\<close>

text \<open>
  The code calls \<^verbatim>\<open>fs.access\<close>, \<^verbatim>\<open>fs.mkdir\<close>, \<^verbatim>\<open>fs.createReadStream\<close> and
  \<^verbatim>\<open>fs.createWriteStream\<close> of Node. The model of the disk is a map from absolute,
  normalised paths (every path the code passes comes out of \<^verbatim>\<open>Path.resolve\<close> or of
  \<^verbatim>\<open>Path.join\<close> on such a path) to directories and files with their content, and the
  set of paths that may not be written: a directory in which nothing can be created, a
  file that cannot be opened for writing.

  A stream does its work after the call that created it has returned. \<open>pipes\<close> are
  the copies that have been started and not yet carried out, in the order they were
  started; \<open>unhandled\<close> are the \<^verbatim>\<open>'error'\<close> events that streams have emitted with
  nobody listening.
\<close>

datatype node = Dir | File string

datatype errno = ENOENT | EEXIST | EACCES | ENOTDIR | EISDIR

record filesystem =
  nodes :: "string \<rightharpoonup> node"
  readonly :: "string set"
  pipes :: "(string \<times> string) list"
  unhandled :: "(errno \<times> string) list"

definition parent_dir :: "string \<Rightarrow> string" where
  "parent_dir path =
     (let d = rev (drop 1 (dropWhile (\<lambda>c. c \<noteq> CHR ''/'') (rev path)))
      in if d = [] then ''/'' else d)"

text \<open>\<^verbatim>\<open>fs.access(path, callback)\<close> with the default mode tests that the path exists.\<close>

definition fs_access :: "filesystem \<Rightarrow> string \<Rightarrow> errno option" where
  "fs_access w path = (case nodes w path of None \<Rightarrow> Some ENOENT | Some n \<Rightarrow> None)"

text \<open>Creating an entry below a path: the error it meets, if any.\<close>

definition create_error :: "filesystem \<Rightarrow> string \<Rightarrow> errno option" where
  "create_error w path =
     (case nodes w (parent_dir path) of
        None \<Rightarrow> Some ENOENT
      | Some (File c) \<Rightarrow> Some ENOTDIR
      | Some Dir \<Rightarrow> (if parent_dir path \<in> readonly w then Some EACCES else None))"

text \<open>\<^verbatim>\<open>fs.mkdir(path, callback)\<close> creates one directory; it creates no parent.\<close>

definition fs_mkdir :: "filesystem \<Rightarrow> string \<Rightarrow> errno + filesystem" where
  "fs_mkdir w path =
     (case nodes w path of
        Some n \<Rightarrow> Inl EEXIST
      | None \<Rightarrow>
          (case create_error w path of
             Some e \<Rightarrow> Inl e
           | None \<Rightarrow> Inr (w\<lparr>nodes := (nodes w)(path \<mapsto> Dir)\<rparr>)))"

text \<open>
  Opening a write stream (flag \<^verbatim>\<open>w\<close>) creates the file or empties it.
\<close>

definition open_write :: "filesystem \<Rightarrow> string \<Rightarrow> errno + filesystem" where
  "open_write w path =
     (case nodes w path of
        Some Dir \<Rightarrow> Inl EISDIR
      | Some (File c) \<Rightarrow>
          (if path \<in> readonly w then Inl EACCES
           else Inr (w\<lparr>nodes := (nodes w)(path \<mapsto> File [])\<rparr>))
      | None \<Rightarrow>
          (case create_error w path of
             Some e \<Rightarrow> Inl e
           | None \<Rightarrow> Inr (w\<lparr>nodes := (nodes w)(path \<mapsto> File [])\<rparr>)))"

text \<open>Opening a read stream (flag \<^verbatim>\<open>r\<close>) and reading it to its end.\<close>

definition read_all :: "filesystem \<Rightarrow> string \<Rightarrow> errno + string" where
  "read_all w path =
     (case nodes w path of
        None \<Rightarrow> Inl ENOENT
      | Some Dir \<Rightarrow> Inl EISDIR
      | Some (File c) \<Rightarrow> Inr c)"

definition emit_error :: "errno \<Rightarrow> string \<Rightarrow> filesystem \<Rightarrow> filesystem" where
  "emit_error e path w = w\<lparr>unhandled := unhandled w @ [(e, path)]\<rparr>"

text \<open>
  Carrying out \<^verbatim>\<open>createReadStream(src).pipe(createWriteStream(dst))\<close>. Both streams
  open their file; the model opens the target first. A stream that fails emits
  \<^verbatim>\<open>'error'\<close>; the code attaches no listener to either stream. When the source cannot
  be read, the target stays as the write stream's opening left it.
\<close>

definition run_pipe :: "string \<times> string \<Rightarrow> filesystem \<Rightarrow> filesystem" where
  "run_pipe p w =
     (case p of (src, dst) \<Rightarrow>
        (case open_write w dst of
           Inl e \<Rightarrow>
             (case read_all w src of
                Inl e' \<Rightarrow> emit_error e' src (emit_error e dst w)
              | Inr c \<Rightarrow> emit_error e dst w)
         | Inr w1 \<Rightarrow>
             (case read_all w1 src of
                Inl e' \<Rightarrow> emit_error e' src w1
              | Inr c \<Rightarrow> w1\<lparr>nodes := (nodes w1)(dst \<mapsto> File c)\<rparr>)))"

text \<open>The disk once every copy that was started has been carried out.\<close>

definition settle :: "filesystem \<Rightarrow> filesystem" where
  "settle w = fold run_pipe (pipes w) (w\<lparr>pipes := []\<rparr>)"

section \<open>Promises\<close>

text \<open>
  A promise of the \<^verbatim>\<open>q\<close> library ends resolved with a value or rejected with a
  reason. The reasons this code passes on are the \<^verbatim>\<open>message\<close> of a failed
  \<^verbatim>\<open>fs.access\<close>, the error object of a failed \<^verbatim>\<open>fs.mkdir\<close>, an exception thrown
  inside a handler, and a reason with a text put in front by string concatenation.

  The work behind a promise is a function from the disk before to the outcome and the
  disk after. \<^verbatim>\<open>p.then(f)\<close> runs \<open>f\<close> on the value of a resolved \<open>p\<close> and passes
  a rejection on; \<^verbatim>\<open>p.catch(f)\<close> runs \<open>f\<close> on the reason of a rejected \<open>p\<close> and
  passes a value on. A handler that throws rejects the promise it feeds.
\<close>

datatype reason =
    Message errno string
  | FsError errno string
  | Exception js_error
  | Prefixed string reason

datatype 'a outcome = Resolved 'a | Rejected reason

type_synonym 'a promise = "filesystem \<Rightarrow> 'a outcome \<times> filesystem"

definition resolved :: "'a \<Rightarrow> 'a promise" where
  "resolved v = (\<lambda>w. (Resolved v, w))"

definition rejected :: "reason \<Rightarrow> 'a promise" where
  "rejected r = (\<lambda>w. (Rejected r, w))"

definition then_p :: "'a promise \<Rightarrow> ('a \<Rightarrow> js_error + 'b promise) \<Rightarrow> 'b promise" where
  "then_p p f =
     (\<lambda>w. case p w of
            (Resolved v, w') \<Rightarrow>
              (case f v of Inl e \<Rightarrow> (Rejected (Exception e), w') | Inr q \<Rightarrow> q w')
          | (Rejected r, w') \<Rightarrow> (Rejected r, w'))"

definition catch_p :: "'a promise \<Rightarrow> (reason \<Rightarrow> js_error + 'a promise) \<Rightarrow> 'a promise" where
  "catch_p p f =
     (\<lambda>w. case p w of
            (Resolved v, w') \<Rightarrow> (Resolved v, w')
          | (Rejected r, w') \<Rightarrow>
              (case f r of Inl e \<Rightarrow> (Rejected (Exception e), w') | Inr q \<Rightarrow> q w'))"

text \<open>
  \<^verbatim>\<open>Q.all\<close> of promises whose work has all been started: every one runs, in the order
  of the array; the result holds all values, or the first rejection.
\<close>

fun q_all :: "'a promise list \<Rightarrow> 'a list promise" where
  "q_all [] = resolved []"
| "q_all (p # ps) =
     (\<lambda>w. case p w of
            (Resolved v, w') \<Rightarrow>
              (case q_all ps w' of
                 (Resolved vs, w'') \<Rightarrow> (Resolved (v # vs), w'')
               | (Rejected r, w'') \<Rightarrow> (Rejected r, w''))
          | (Rejected r, w') \<Rightarrow> (Rejected r, snd (q_all ps w')))"

section \<open>The configuration directory\<close>

text \<open>
  \<^verbatim>\<open>checkIfAccessible\<close> (lines 201-208): resolved with \<^verbatim>\<open>null\<close> when
  \<^verbatim>\<open>fs.access\<close> reports no error, rejected with the error's message otherwise.
\<close>

definition checkIfAccessible :: "string \<Rightarrow> unit promise" where
  "checkIfAccessible path =
     (\<lambda>w. case fs_access w path of
            None \<Rightarrow> (Resolved (), w)
          | Some err \<Rightarrow> (Rejected (Message err path), w))"

text \<open>\<^verbatim>\<open>Q.nfcall(fs.mkdir, configDir)\<close> (line 86).\<close>

definition nfcall_mkdir :: "string \<Rightarrow> unit promise" where
  "nfcall_mkdir path =
     (\<lambda>w. case fs_mkdir w path of
            Inl err \<Rightarrow> (Rejected (FsError err path), w)
          | Inr w' \<Rightarrow> (Resolved (), w'))"

text \<open>
  \<^verbatim>\<open>copyTask\<close> (lines 217-229): the function given to \<^verbatim>\<open>Q.fcall\<close> creates the two
  streams, pipes one into the other and calls \<^verbatim>\<open>deferred.resolve(null)\<close>. With
  strings for its three arguments nothing in it throws: the streams report what goes
  wrong through their \<^verbatim>\<open>'error'\<close> event, later.
\<close>

definition copyTask :: "string \<Rightarrow> string \<Rightarrow> string \<Rightarrow> unit promise" where
  "copyTask source target file =
     (\<lambda>w. (Resolved (),
            w\<lparr>pipes := pipes w @ [(path_join [source, file], path_join [target, file])]\<rparr>))"

text \<open>
  \<^verbatim>\<open>initializeConfigDir\<close> (lines 109-128). \<^verbatim>\<open>getExtension\<close> answers \<^verbatim>\<open>undefined\<close>
  when the host knows no extension of that name, and reading \<^verbatim>\<open>ext.extensionPath\<close>
  throws then; \<open>extensionPath h\<close> is \<open>None\<close> in that case.
\<close>

definition initializeConfigDir :: "host \<Rightarrow> string \<Rightarrow> js_error + unit promise" where
  "initializeConfigDir h configDir =
     (case extensionPath h of
        None \<Rightarrow> Inl TypeError
      | Some extPath \<Rightarrow>
          (let source = path_resolve h [extPath, ''res'']
           in Inr (catch_p
                (then_p
                  (q_all [copyTask source configDir ''settings.json'',
                          copyTask source configDir ''journal.page-template.md'',
                          copyTask source configDir ''journal.note-template.md'',
                          copyTask source configDir ''journal.inline-templates.json''])
                  (\<lambda>vs. Inr (resolved ())))
                (\<lambda>err. Inr (rejected (Prefixed ''Error copying: '' err))))))"

text \<open>
  \<^verbatim>\<open>getConfigPath\<close> (lines 71-107). \<open>configDirSetting\<close> is lines 74-81, the
  directory the settings name; \<open>configDirChain\<close> is the chain of lines 84-103, whose
  last two handlers settle the promise that \<^verbatim>\<open>getConfigPath\<close> returns.
\<close>

definition configDirSetting :: "WorkspaceConfiguration \<Rightarrow> host \<Rightarrow> js_error + string" where
  "configDirSetting config h =
     (case get_string config ''extDir'' of
        None \<Rightarrow> map_sum id (\<lambda>base. path_resolve h [base, ''.vscode'']) (getBasePath config h)
      | Some configDir \<Rightarrow>
          (if length configDir > 0 then Inr (path_resolve h [configDir])
           else map_sum id (\<lambda>base. path_resolve h [base, ''.vscode''])
                  (getBasePath config h)))"

definition configDirChain :: "host \<Rightarrow> string \<Rightarrow> string promise" where
  "configDirChain h configDir =
     catch_p
       (then_p
         (catch_p
           (then_p
             (catch_p (checkIfAccessible configDir)
                (\<lambda>err. Inr (nfcall_mkdir configDir)))
             (\<lambda>u. Inr (checkIfAccessible
                          (path_join [configDir, ''journal.page-template.md'']))))
           (\<lambda>err. initializeConfigDir h configDir))
         (\<lambda>u. Inr (resolved configDir)))
       (\<lambda>err. Inr (rejected
                     (Prefixed ''Failed to initialize the configuration: '' err)))"

definition getConfigPath :: "WorkspaceConfiguration \<Rightarrow> host \<Rightarrow> js_error + string promise" where
  "getConfigPath config h =
     (case configDirSetting config h of
        Inl e \<Rightarrow> Inl e
      | Inr configDir \<Rightarrow> Inr (configDirChain h configDir))"

text \<open>The four files of a configuration directory.\<close>

definition expectedFiles :: "string list" where
  "expectedFiles =
     [''settings.json'', ''journal.page-template.md'', ''journal.note-template.md'',
      ''journal.inline-templates.json'']"

definition seedCopies :: "string \<Rightarrow> string \<Rightarrow> (string \<times> string) list" where
  "seedCopies source target =
     map (\<lambda>file. (path_join [source, file], path_join [target, file])) expectedFiles"

text \<open>
  Calling a method and waiting for the promise it returns: the exception when the call
  itself throws, the outcome of the promise otherwise, and the disk at that moment.
\<close>

definition await :: "js_error + 'a promise \<Rightarrow> filesystem \<Rightarrow> (js_error + 'a outcome) \<times> filesystem" where
  "await call w =
     (case call of
        Inl e \<Rightarrow> (Inl e, w)
      | Inr p \<Rightarrow> (case p w of (r, w') \<Rightarrow> (Inr r, w')))"

section \<open>Normalised paths\<close>

text \<open>
  What \<^verbatim>\<open>Path.resolve\<close> returns when the working directory is absolute: a slash
  followed by segments, joined by slashes, none of which is empty, holds a slash, or is
  \<^verbatim>\<open>.\<close> or \<^verbatim>\<open>..\<close>. These two definitions serve the lemmas about paths only.
\<close>

definition clean_seg :: "string \<Rightarrow> bool" where
  "clean_seg s = (s \<noteq> [] \<and> CHR ''/'' \<notin> set s \<and> s \<noteq> ''.'' \<and> s \<noteq> ''..'')"

definition abs_path :: "string list \<Rightarrow> string" where
  "abs_path segs = CHR ''/'' # join_slash segs"

section \<open>Example inputs\<close>

definition settings_unset :: WorkspaceConfiguration where
  "settings_unset = \<lparr>strings = Map.empty, booleans = Map.empty\<rparr>"

definition settings_empty :: WorkspaceConfiguration where
  "settings_empty =
     \<lparr>strings = map_of [(''locale'', []), (''base'', []), (''ext'', []), (''extDir'', [])],
      booleans = Map.empty\<rparr>"

definition settings_ext :: "string \<Rightarrow> WorkspaceConfiguration" where
  "settings_ext e = \<lparr>strings = map_of [(''ext'', e)], booleans = Map.empty\<rparr>"

definition settings_memo :: WorkspaceConfiguration where
  "settings_memo = \<lparr>strings = map_of [(''tpl-memo'', ''- MEMO: text'')], booleans = Map.empty\<rparr>"

definition host_u :: host where
  "host_u = \<lparr>homedir = ''/home/u'', cwd = ''/work'', extensionPath = Some ''/ext''\<rparr>"

text \<open>The extension's bundled resources, complete.\<close>

definition resource_nodes :: "(string \<times> node) list" where
  "resource_nodes =
     [(''/ext'', Dir), (''/ext/res'', Dir),
      (''/ext/res/settings.json'', File ''{}''),
      (''/ext/res/journal.page-template.md'', File ''# page''),
      (''/ext/res/journal.note-template.md'', File ''# note''),
      (''/ext/res/journal.inline-templates.json'', File ''[]'')]"

definition home_nodes :: "(string \<times> node) list" where
  "home_nodes = [(''/'', Dir), (''/home'', Dir), (''/home/u'', Dir), (''/work'', Dir)]"

text \<open>A first start: the home directory holds no \<^verbatim>\<open>Journal\<close> folder yet.\<close>

definition disk_fresh :: filesystem where
  "disk_fresh =
     \<lparr>nodes = map_of (home_nodes @ resource_nodes), readonly = {}, pipes = [], unhandled = []\<rparr>"

text \<open>The \<^verbatim>\<open>Journal\<close> folder exists, the configuration directory does not.\<close>

definition disk_journal :: filesystem where
  "disk_journal =
     \<lparr>nodes = map_of ((''/home/u/Journal'', Dir) # home_nodes @ resource_nodes),
      readonly = {}, pipes = [], unhandled = []\<rparr>"

text \<open>
  The configuration directory exists and holds settings the user has edited, but no
  page template.
\<close>

definition disk_no_template :: filesystem where
  "disk_no_template =
     \<lparr>nodes = map_of ((''/home/u/Journal'', Dir) # (''/home/u/Journal/.vscode'', Dir) #
                      (''/home/u/Journal/.vscode/settings.json'', File ''edited by the user'') #
                      home_nodes @ resource_nodes),
      readonly = {}, pipes = [], unhandled = []\<rparr>"

text \<open>
  The configuration directory exists and is empty; the bundled resources lack
  \<^verbatim>\<open>settings.json\<close>.
\<close>

definition disk_no_settings_resource :: filesystem where
  "disk_no_settings_resource =
     \<lparr>nodes = map_of ((''/home/u/Journal'', Dir) # (''/home/u/Journal/.vscode'', Dir) #
                      home_nodes @
                      filter (\<lambda>entry. fst entry \<noteq> ''/ext/res/settings.json'') resource_nodes),
      readonly = {}, pipes = [], unhandled = []\<rparr>"

section \<open>The settings accessors\<close>

lemma getLocale_empty: "get_string config ''locale'' = Some [] \<Longrightarrow> getLocale config = Inr ''en-US''"
  by (simp add: getLocale_def)

lemma getBasePath_empty:
  "get_string config ''base'' = Some [] \<Longrightarrow>
     getBasePath config h = Inr (path_resolve h [homedir h, ''Journal''])"
  by (simp add: getBasePath_def)

lemma isDevEnabled_unset: "get_boolean config ''dev'' = None \<Longrightarrow> \<not> isDevEnabled config"
  by (simp add: isDevEnabled_def)

text \<open>
  Claim C7. For every stored value of the \<^verbatim>\<open>ext\<close> setting, \<open>getFileExtension\<close> takes
  away one leading dot, and only one, and answers \<^verbatim>\<open>md\<close> when nothing is left:
  \<^verbatim>\<open>.markdown\<close> gives \<^verbatim>\<open>markdown\<close>, \<^verbatim>\<open>md\<close> gives \<^verbatim>\<open>md\<close>, the empty string
  gives \<^verbatim>\<open>md\<close>.
\<close>

theorem getFileExtension_strips_one_dot:
  assumes "get_string config ''ext'' = Some ext"
  shows "(\<forall>rest. ext = CHR ''.'' # rest \<longrightarrow>
            getFileExtension config = Inr (if rest = [] then ''md'' else rest)) \<and>
         (\<not> startsWith ext ''.'' \<longrightarrow>
            getFileExtension config = Inr (if ext = [] then ''md'' else ext))"
  using assms by (auto simp add: getFileExtension_def startsWith_def substring_def)

text \<open>The three inputs of the claim, and one with two leading dots.\<close>

theorem getFileExtension_strips_one_dot_witness:
  "getFileExtension (settings_ext ''.markdown'') = Inr ''markdown'' \<and>
   getFileExtension (settings_ext ''md'') = Inr ''md'' \<and>
   getFileExtension (settings_ext []) = Inr ''md'' \<and>
   getFileExtension (settings_ext ''..md'') = Inr ''.md''"
proof -
  have g: "get_string (settings_ext e) ''ext'' = Some e" for e
    by (simp add: get_string_def settings_ext_def)
  show ?thesis
    using getFileExtension_strips_one_dot [OF g [of "''.markdown''"]]
      getFileExtension_strips_one_dot [OF g [of "''md''"]]
      getFileExtension_strips_one_dot [OF g [of "[]"]]
      getFileExtension_strips_one_dot [OF g [of "''..md''"]]
    by (simp add: startsWith_def)
qed

text \<open>
  Claim C8. For a setting that is the empty string or unset, the accessor should answer
  its default: \<^verbatim>\<open>en-US\<close>, \<^verbatim>\<open>md\<close>, the \<^verbatim>\<open>Journal\<close> folder of the home directory,
  \<^verbatim>\<open>false\<close>. On the empty string the code does (\<open>getLocale_empty\<close>,
  \<open>getBasePath_empty\<close>, the witness of C7), and \<open>isDevEnabled\<close> does on an unset
  value. On an unset value the three string accessors read a property of
  \<^verbatim>\<open>undefined\<close> and throw, where \<^verbatim>\<open>getConfigPath\<close> guards the same kind of read
  with \<^verbatim>\<open>configDir != null\<close>.
\<close>

theorem unset_settings_throw:
  "getLocale settings_unset = Inl TypeError \<and>
   getFileExtension settings_unset = Inl TypeError \<and>
   getBasePath settings_unset host_u = Inl TypeError \<and>
   isDevEnabled settings_unset = False"
  by (simp add: getLocale_def getFileExtension_def getBasePath_def isDevEnabled_def
      get_string_def get_boolean_def settings_unset_def)

text \<open>
  Claim C9, as stated, has all four template accessors return a \<^verbatim>\<open>TemplateInfo\<close>.
  \<open>getMemoTemplate\<close> is declared to return a string and returns the stored
  \<^verbatim>\<open>tpl-memo\<close> value itself.
\<close>

theorem getMemoTemplate_not_TemplateInfo:
  "\<not> isTemplateInfo (getMemoTemplate settings_memo)"
  by (simp add: getMemoTemplate_def)

text \<open>
  Claim C9, amended. \<open>getNotesTemplate\<close>, \<open>getTaskTemplate\<close> and \<open>getTodoTemplate\<close>
  each return a \<^verbatim>\<open>TemplateInfo\<close> whose two fields are the stored values of their
  \<^verbatim>\<open>tpl-*\<close> and \<^verbatim>\<open>tpl-*-after\<close> keys; \<open>getMemoTemplate\<close> returns the stored
  \<^verbatim>\<open>tpl-memo\<close> value. All four are functions of the settings alone: no disk is among
  their arguments or in their result.
\<close>

theorem template_accessors:
  "getMemoTemplate config = JString (get_string config ''tpl-memo'') \<and>
   getNotesTemplate config =
     JTemplateInfo \<lparr>Template = get_string config ''tpl-files'',
                    After = get_string config ''tpl-files-after''\<rparr> \<and>
   getTaskTemplate config =
     JTemplateInfo \<lparr>Template = get_string config ''tpl-task'',
                    After = get_string config ''tpl-task-after''\<rparr> \<and>
   getTodoTemplate config =
     JTemplateInfo \<lparr>Template = get_string config ''tpl-todo'',
                    After = get_string config ''tpl-todo-after''\<rparr> \<and>
   isTemplateInfo (getNotesTemplate config) \<and>
   isTemplateInfo (getTaskTemplate config) \<and>
   isTemplateInfo (getTodoTemplate config)"
  by (simp add: getMemoTemplate_def getNotesTemplate_def getTaskTemplate_def getTodoTemplate_def)

section \<open>The promise chain\<close>

lemma copyTask_run:
  "copyTask source target file w =
     (Resolved (), w\<lparr>pipes := pipes w @ [(path_join [source, file], path_join [target, file])]\<rparr>)"
  by (simp add: copyTask_def)

lemma q_all_copyTasks:
  "q_all (map (copyTask source target) files) w =
     (Resolved (map (\<lambda>f. ()) files),
      w\<lparr>pipes := pipes w @ map (\<lambda>file. (path_join [source, file], path_join [target, file])) files\<rparr>)"
  by (induction files arbitrary: w) (simp_all add: resolved_def copyTask_run)

lemma initializeConfigDir_run:
  assumes "extensionPath h = Some extPath"
  shows "initializeConfigDir h configDir =
           Inr (\<lambda>w. (Resolved (),
                 w\<lparr>pipes := pipes w @ seedCopies (path_resolve h [extPath, ''res'']) configDir\<rparr>))"
proof -
  let ?src = "path_resolve h [extPath, ''res'']"
  have "q_all [copyTask ?src configDir ''settings.json'',
               copyTask ?src configDir ''journal.page-template.md'',
               copyTask ?src configDir ''journal.note-template.md'',
               copyTask ?src configDir ''journal.inline-templates.json'']
        = q_all (map (copyTask ?src configDir) expectedFiles)"
    by (simp add: expectedFiles_def)
  then show ?thesis
    using assms
    by (simp add: initializeConfigDir_def q_all_copyTasks then_p_def catch_p_def
        resolved_def seedCopies_def fun_eq_iff del: q_all.simps)
qed

lemma initializeConfigDir_none:
  "extensionPath h = None \<Longrightarrow> initializeConfigDir h configDir = Inl TypeError"
  by (simp add: initializeConfigDir_def)

lemma chain_present:
  assumes "fs_access w configDir = None"
      and "fs_access w (path_join [configDir, ''journal.page-template.md'']) = None"
  shows "configDirChain h configDir w = (Resolved configDir, w)"
  using assms
  by (simp add: configDirChain_def catch_p_def then_p_def checkIfAccessible_def resolved_def)

lemma chain_template_missing:
  assumes "fs_access w configDir = None"
      and "fs_access w (path_join [configDir, ''journal.page-template.md'']) = Some e"
      and "extensionPath h = Some extPath"
  shows "configDirChain h configDir w =
           (Resolved configDir,
            w\<lparr>pipes := pipes w @ seedCopies (path_resolve h [extPath, ''res'']) configDir\<rparr>)"
  using assms
  by (simp add: configDirChain_def catch_p_def then_p_def checkIfAccessible_def resolved_def
      initializeConfigDir_run)

lemma chain_mkdir_fails:
  assumes "fs_access w configDir = Some e"
      and "fs_mkdir w configDir = Inl e'"
      and "extensionPath h = Some extPath"
  shows "configDirChain h configDir w =
           (Resolved configDir,
            w\<lparr>pipes := pipes w @ seedCopies (path_resolve h [extPath, ''res'']) configDir\<rparr>)"
  using assms
  by (simp add: configDirChain_def catch_p_def then_p_def checkIfAccessible_def resolved_def
      nfcall_mkdir_def initializeConfigDir_run)

lemma chain_mkdir_succeeds:
  assumes "fs_access w configDir = Some e"
      and "fs_mkdir w configDir = Inr w'"
      and "extensionPath h = Some extPath"
  shows "configDirChain h configDir w =
           (Resolved configDir,
            if fs_access w' (path_join [configDir, ''journal.page-template.md'']) = None then w'
            else w'\<lparr>pipes := pipes w' @ seedCopies (path_resolve h [extPath, ''res'']) configDir\<rparr>)"
  using assms
  by (simp add: configDirChain_def catch_p_def then_p_def checkIfAccessible_def resolved_def
      nfcall_mkdir_def initializeConfigDir_run split: option.splits)

lemma chain_outcome:
  "fst (configDirChain h configDir w) = Resolved configDir \<or>
   (extensionPath h = None \<and>
    fst (configDirChain h configDir w) =
      Rejected (Prefixed ''Failed to initialize the configuration: '' (Exception TypeError)))"
proof (cases "extensionPath h")
  case None
  then show ?thesis
    by (simp add: configDirChain_def catch_p_def then_p_def checkIfAccessible_def resolved_def
        rejected_def nfcall_mkdir_def initializeConfigDir_none
        split: option.splits sum.splits)
next
  case (Some extPath)
  show ?thesis
  proof (cases "fs_access w configDir")
    case None
    then show ?thesis
      using Some chain_present [of w configDir h] chain_template_missing [of w configDir _ h extPath]
      by (cases "fs_access w (path_join [configDir, ''journal.page-template.md''])") simp_all
  next
    case (Some e)
    then show ?thesis
      using \<open>extensionPath h = Some extPath\<close>
        chain_mkdir_fails [of w configDir e _ h extPath]
        chain_mkdir_succeeds [of w configDir e _ h extPath]
      by (cases "fs_mkdir w configDir") simp_all
  qed
qed

lemma await_getConfigPath:
  "configDirSetting config h = Inr configDir \<Longrightarrow>
     await (getConfigPath config h) w =
       (Inr (fst (configDirChain h configDir w)), snd (configDirChain h configDir w))"
  by (simp add: await_def getConfigPath_def split: prod.splits)

lemma await_getConfigPath_resolved:
  assumes "await (getConfigPath config h) w = (Inr (Resolved dir), w')"
  shows "configDirSetting config h = Inr dir"
proof (cases "configDirSetting config h")
  case (Inl e)
  with assms show ?thesis by (simp add: await_def getConfigPath_def)
next
  case (Inr configDir)
  from assms have "fst (configDirChain h configDir w) = Resolved dir"
    by (simp add: await_getConfigPath [OF Inr])
  with chain_outcome [of h configDir w] have "configDir = dir" by auto
  with Inr show ?thesis by simp
qed

section \<open>Normalised paths: lemmas\<close>

lemma split_slash_not_Nil: "split_slash s \<noteq> []"
  by (induction s) (auto split: list.splits)

lemma split_slash_append:
  "split_slash (a @ CHR ''/'' # b) = split_slash a @ split_slash b"
proof (induction a)
  case Nil
  show ?case by simp
next
  case (Cons c a)
  then show ?case
    using split_slash_not_Nil [of a] by (cases "split_slash a") auto
qed

lemma split_slash_no_slash: "CHR ''/'' \<notin> set s \<Longrightarrow> split_slash s = [s]"
  by (induction s) auto

lemma split_slash_segments: "seg \<in> set (split_slash p) \<Longrightarrow> CHR ''/'' \<notin> set seg"
proof (induction p arbitrary: seg)
  case Nil
  then show ?case by simp
next
  case (Cons c p)
  show ?case
  proof (cases "c = CHR ''/''")
    case True
    with Cons show ?thesis by auto
  next
    case False
    obtain s ss where sp: "split_slash p = s # ss"
      using split_slash_not_Nil [of p] by (cases "split_slash p") auto
    with Cons False show ?thesis by auto
  qed
qed

lemma split_join_slash:
  "segs \<noteq> [] \<Longrightarrow> \<forall>s\<in>set segs. CHR ''/'' \<notin> set s \<Longrightarrow> split_slash (join_slash segs) = segs"
proof (induction segs rule: join_slash.induct)
  case 1
  then show ?case by simp
next
  case (2 s)
  then show ?case by (simp add: split_slash_no_slash)
next
  case (3 s t ss)
  then show ?case by (simp add: split_slash_append split_slash_no_slash)
qed

lemma join_slash_snoc:
  "segs \<noteq> [] \<Longrightarrow> join_slash (segs @ [f]) = join_slash segs @ CHR ''/'' # f"
  by (induction segs rule: join_slash.induct) auto

lemma join_slash_not_Nil: "segs \<noteq> [] \<Longrightarrow> hd segs \<noteq> [] \<Longrightarrow> join_slash segs \<noteq> []"
  by (induction segs rule: join_slash.induct) auto

lemma norm_segs_clean:
  "\<forall>s\<in>set ss. clean_seg s \<Longrightarrow> norm_segs allowAboveRoot res ss = rev res @ ss"
  by (induction ss arbitrary: res) (auto simp add: clean_seg_def)

lemma norm_segs_gives_clean:
  "\<forall>s\<in>set res. clean_seg s \<Longrightarrow> \<forall>s\<in>set ss. CHR ''/'' \<notin> set s \<Longrightarrow>
     s \<in> set (norm_segs False res ss) \<Longrightarrow> clean_seg s"
proof (induction ss arbitrary: res)
  case Nil
  then show ?case by simp
next
  case (Cons x ss)
  have tl: "\<forall>s\<in>set (tl res). clean_seg s"
    using Cons.prems(1) by (cases res) auto
  have cons: "x \<noteq> [] \<Longrightarrow> x \<noteq> ''.'' \<Longrightarrow> x \<noteq> ''..'' \<Longrightarrow> \<forall>s\<in>set (x # res). clean_seg s"
    using Cons.prems(1,2) by (auto simp add: clean_seg_def)
  from Cons.prems(2) have rest: "\<forall>s\<in>set ss. CHR ''/'' \<notin> set s" by simp
  show ?case
    using Cons.prems(3) Cons.IH [OF Cons.prems(1) rest] Cons.IH [OF tl rest] Cons.IH [OF cons rest]
    by (auto split: if_splits)
qed

lemma resolve_loop_absolute:
  "isAbsolute c \<Longrightarrow> snd (resolve_loop (xs @ [c]) acc) = True"
  by (induction xs arbitrary: acc) (auto simp add: isAbsolute_def)

lemma path_resolve_abs_path:
  assumes "isAbsolute (cwd h)"
  shows "\<exists>segs. (\<forall>s\<in>set segs. clean_seg s) \<and> path_resolve h args = abs_path segs"
proof -
  obtain p where p: "resolve_loop (rev args @ [cwd h]) [] = (p, True)"
    using resolve_loop_absolute [OF assms, of "rev args" "[]"]
    by (cases "resolve_loop (rev args @ [cwd h]) []") auto
  let ?segs = "norm_segs False [] (split_slash p)"
  have "\<forall>s\<in>set ?segs. clean_seg s"
    using norm_segs_gives_clean [of "[]" "split_slash p"] split_slash_segments [of _ p] by auto
  moreover have "path_resolve h args = abs_path ?segs"
    by (simp add: path_resolve_def p normalizeString_def abs_path_def)
  ultimately show ?thesis by blast
qed

lemma path_join_abs_path:
  assumes "\<forall>s\<in>set segs. clean_seg s" and "clean_seg f"
  shows "path_join [abs_path segs, f] = abs_path (segs @ [f])"
proof -
  from assms(2) have f: "f \<noteq> []" "CHR ''/'' \<notin> set f" by (simp_all add: clean_seg_def)
  let ?joined = "abs_path segs @ CHR ''/'' # f"
  have joined: "join_slash (filter (\<lambda>arg. arg \<noteq> []) [abs_path segs, f]) = ?joined"
    using f by (simp add: abs_path_def)
  have last: "last ?joined \<noteq> CHR ''/''"
    using f by (metis last_appendR last_ConsR last_in_set list.distinct(1))
  have all: "\<forall>s\<in>set (segs @ [f]). clean_seg s" using assms by simp
  have split: "norm_segs False [] (split_slash ?joined) = segs @ [f]"
  proof (cases "segs = []")
    case True
    then show ?thesis
      using norm_segs_clean [of "[f]" False "[]"] assms(2) f
      by (simp add: abs_path_def split_slash_no_slash)
  next
    case False
    have "split_slash (join_slash segs @ CHR ''/'' # f) = segs @ [f]"
      using False assms(1) f
      by (simp add: split_slash_append split_join_slash split_slash_no_slash clean_seg_def)
    then show ?thesis
      using norm_segs_clean [OF all, of False "[]"] by (simp add: abs_path_def)
  qed
  have nonempty: "join_slash (segs @ [f]) \<noteq> []"
    using join_slash_not_Nil [of "segs @ [f]"] assms f
    by (cases segs) (auto simp add: clean_seg_def)
  show ?thesis
    unfolding path_join_def joined
    using last nonempty split
    by (simp add: path_normalize_def isAbsolute_def normalizeString_def abs_path_def Let_def)
qed

lemma dropWhile_to_slash:
  "CHR ''/'' \<notin> set f \<Longrightarrow>
     dropWhile (\<lambda>c. c \<noteq> CHR ''/'') (rev f @ CHR ''/'' # r) = CHR ''/'' # r"
  by (subst dropWhile_append2) auto

lemma parent_dir_abs_path:
  assumes "CHR ''/'' \<notin> set f"
  shows "parent_dir (abs_path (segs @ [f])) = abs_path segs"
proof (cases "segs = []")
  case True
  then show ?thesis
    using dropWhile_to_slash [OF assms, of "[]"] by (simp add: parent_dir_def abs_path_def)
next
  case False
  then show ?thesis
    using dropWhile_to_slash [OF assms, of "rev (join_slash segs) @ ''/''"]
    by (simp add: parent_dir_def abs_path_def join_slash_snoc)
qed

lemma abs_path_inject:
  assumes "\<forall>s\<in>set a. clean_seg s" and "\<forall>s\<in>set b. clean_seg s" and "abs_path a = abs_path b"
  shows "a = b"
proof -
  from assms(3) have eq: "join_slash a = join_slash b" by (simp add: abs_path_def)
  have ne: "xs \<noteq> [] \<Longrightarrow> \<forall>s\<in>set xs. clean_seg s \<Longrightarrow> join_slash xs \<noteq> []" for xs
    using join_slash_not_Nil [of xs] by (cases xs) (auto simp add: clean_seg_def)
  show ?thesis
  proof (cases "a = [] \<or> b = []")
    case True
    then show ?thesis
      using eq ne [of a] ne [of b] assms(1,2) by (metis join_slash.simps(1))
  next
    case False
    then have "split_slash (join_slash a) = a" "split_slash (join_slash b) = b"
      using assms(1,2) by (simp_all add: split_join_slash clean_seg_def)
    with eq show ?thesis by metis
  qed
qed

lemma abs_path_snoc_inject:
  assumes "\<forall>s\<in>set a. clean_seg s" and "\<forall>s\<in>set b. clean_seg s"
      and "clean_seg f" and "clean_seg g"
      and "abs_path (a @ [f]) = abs_path (b @ [g])"
  shows "a = b \<and> f = g"
proof -
  have "a @ [f] = b @ [g]"
    using assms by (intro abs_path_inject) auto
  then show ?thesis by simp
qed

lemma abs_path_snoc_neq:
  assumes "\<forall>s\<in>set a. clean_seg s" and "clean_seg f"
  shows "abs_path (a @ [f]) \<noteq> abs_path a"
proof
  assume "abs_path (a @ [f]) = abs_path a"
  then have "a @ [f] = a"
    using assms by (intro abs_path_inject) auto
  then show False by simp
qed

lemma configDirSetting_abs_path:
  assumes "isAbsolute (cwd h)" and "configDirSetting config h = Inr dir"
  shows "\<exists>segs. (\<forall>s\<in>set segs. clean_seg s) \<and> dir = abs_path segs"
proof -
  have "\<exists>args. dir = path_resolve h args"
    using assms(2)
    by (auto simp add: configDirSetting_def getBasePath_def
        split: option.splits if_splits)
  then show ?thesis
    using path_resolve_abs_path [OF assms(1)] by metis
qed

lemma expectedFiles_clean: "file \<in> set expectedFiles \<Longrightarrow> clean_seg file"
  by (auto simp add: expectedFiles_def clean_seg_def)

lemma distinct_expectedFiles: "distinct expectedFiles"
  by (simp add: expectedFiles_def)

lemma seedCopies_abs_path:
  assumes "\<forall>s\<in>set ss. clean_seg s" and "\<forall>s\<in>set ds. clean_seg s"
  shows "seedCopies (abs_path ss) (abs_path ds) =
           map (\<lambda>file. (abs_path (ss @ [file]), abs_path (ds @ [file]))) expectedFiles"
  unfolding seedCopies_def
  by (rule map_cong [OF refl])
     (simp add: path_join_abs_path [OF assms(1)] path_join_abs_path [OF assms(2)]
       expectedFiles_clean)

section \<open>Carrying out the copies\<close>

lemma run_pipe_readonly: "readonly (run_pipe p w) = readonly w"
  by (cases p)
     (auto simp add: run_pipe_def open_write_def read_all_def emit_error_def
       split: option.splits node.splits sum.splits if_splits)

lemma run_pipe_frame: "x \<noteq> dst \<Longrightarrow> nodes (run_pipe (src, dst) w) x = nodes w x"
  by (auto simp add: run_pipe_def open_write_def read_all_def emit_error_def
      split: option.splits node.splits sum.splits if_splits)

lemma open_write_ok:
  assumes "nodes w (parent_dir dst) = Some Dir" and "parent_dir dst \<notin> readonly w"
      and "dst \<notin> readonly w" and "nodes w dst \<noteq> Some Dir"
  shows "open_write w dst = Inr (w\<lparr>nodes := (nodes w)(dst \<mapsto> File [])\<rparr>)"
proof (cases "nodes w dst")
  case None
  with assms show ?thesis by (simp add: open_write_def create_error_def)
next
  case (Some n)
  with assms show ?thesis by (cases n) (simp_all add: open_write_def)
qed

lemma run_pipe_copy:
  assumes "nodes w src = Some (File c)" and "src \<noteq> dst"
      and "nodes w (parent_dir dst) = Some Dir" and "parent_dir dst \<notin> readonly w"
      and "dst \<notin> readonly w" and "nodes w dst \<noteq> Some Dir"
  shows "nodes (run_pipe (src, dst) w) dst = Some (File c)"
  using assms(1,2) by (simp add: run_pipe_def open_write_ok [OF assms(3-6)] read_all_def)

lemma fold_run_pipe_readonly: "readonly (fold run_pipe ps w) = readonly w"
  by (induction ps arbitrary: w) (simp_all add: run_pipe_readonly)

lemma fold_run_pipe_frame:
  "x \<notin> snd ` set ps \<Longrightarrow> nodes (fold run_pipe ps w) x = nodes w x"
proof (induction ps arbitrary: w)
  case Nil
  show ?case by simp
next
  case (Cons p ps)
  obtain s t where p: "p = (s, t)" by (cases p)
  with Cons show ?case by (simp add: run_pipe_frame)
qed

lemma fold_run_pipe_copies:
  assumes "(src, dst) \<in> set ps"
      and "distinct (map snd ps)"
      and "\<forall>p\<in>set ps. \<forall>q\<in>set ps. fst p \<noteq> snd q"
      and "nodes w D = Some Dir" and "D \<notin> readonly w"
      and "\<forall>p\<in>set ps. snd p \<noteq> D \<and> parent_dir (snd p) = D \<and> snd p \<notin> readonly w \<and>
             nodes w (snd p) \<noteq> Some Dir"
      and "nodes w src = Some (File c)"
  shows "nodes (fold run_pipe ps w) dst = Some (File c)"
  using assms
proof (induction ps arbitrary: w)
  case Nil
  then show ?case by simp
next
  case (Cons p ps)
  obtain s t where p: "p = (s, t)" by (cases p)
  let ?w = "run_pipe (s, t) w"
  have t_props: "t \<noteq> D" "parent_dir t = D" "t \<notin> readonly w" "nodes w t \<noteq> Some Dir"
    using Cons.prems(6) p by simp_all
  have src_t: "src \<noteq> t"
    using Cons.prems(1,3) p by fastforce
  show ?case
  proof (cases "(src, dst) = (s, t)")
    case True
    then have eq: "src = s" "dst = t" by simp_all
    have "nodes ?w dst = Some (File c)"
      unfolding eq
      using Cons.prems(4,5,7) t_props src_t eq by (intro run_pipe_copy) simp_all
    moreover have "dst \<notin> snd ` set ps"
      using Cons.prems(2) p eq by simp
    ultimately show ?thesis
      using p by (simp add: fold_run_pipe_frame)
  next
    case False
    with Cons.prems(1) p have mem: "(src, dst) \<in> set ps" by auto
    have others: "\<forall>q\<in>set ps. snd q \<noteq> t"
      using Cons.prems(2) p by (simp add: image_iff) metis
    have "nodes (fold run_pipe ps ?w) dst = Some (File c)"
    proof (rule Cons.IH [OF mem])
      show "distinct (map snd ps)" using Cons.prems(2) by simp
      show "\<forall>p\<in>set ps. \<forall>q\<in>set ps. fst p \<noteq> snd q" using Cons.prems(3) by simp
      show "nodes ?w D = Some Dir" using Cons.prems(4) t_props(1) by (simp add: run_pipe_frame)
      show "D \<notin> readonly ?w" using Cons.prems(5) by (simp add: run_pipe_readonly)
      show "\<forall>p\<in>set ps. snd p \<noteq> D \<and> parent_dir (snd p) = D \<and> snd p \<notin> readonly ?w \<and>
              nodes ?w (snd p) \<noteq> Some Dir"
        using Cons.prems(6) others by (simp add: run_pipe_readonly run_pipe_frame)
      show "nodes ?w src = Some (File c)" using Cons.prems(7) src_t by (simp add: run_pipe_frame)
    qed
    then show ?thesis using p by simp
  qed
qed

lemma settle_seedCopies:
  assumes ss: "\<forall>s\<in>set ss. clean_seg s" and ds: "\<forall>s\<in>set ds. clean_seg s"
      and neq: "abs_path ss \<noteq> abs_path ds"
      and dir: "nodes w (abs_path ds) = Some Dir" "abs_path ds \<notin> readonly w"
      and targets: "\<forall>file\<in>set expectedFiles.
             abs_path (ds @ [file]) \<notin> readonly w \<and> nodes w (abs_path (ds @ [file])) \<noteq> Some Dir"
      and mem: "file \<in> set expectedFiles"
      and src: "nodes w (abs_path (ss @ [file])) = Some (File c)"
  shows "nodes (settle (w\<lparr>pipes := seedCopies (abs_path ss) (abs_path ds)\<rparr>))
           (abs_path (ds @ [file])) = Some (File c)"
proof -
  let ?ps = "map (\<lambda>file. (abs_path (ss @ [file]), abs_path (ds @ [file]))) expectedFiles"
  let ?w = "w\<lparr>pipes := []\<rparr>"
  have "nodes (fold run_pipe ?ps ?w) (abs_path (ds @ [file])) = Some (File c)"
  proof (rule fold_run_pipe_copies [where D = "abs_path ds"])
    show "(abs_path (ss @ [file]), abs_path (ds @ [file])) \<in> set ?ps"
      using mem by auto
    show "distinct (map snd ?ps)"
      using distinct_expectedFiles abs_path_snoc_inject [OF ds ds] expectedFiles_clean
      by (auto simp add: distinct_map comp_def inj_on_def)
    show "\<forall>p\<in>set ?ps. \<forall>q\<in>set ?ps. fst p \<noteq> snd q"
      using abs_path_snoc_inject [OF ss ds] expectedFiles_clean neq by auto
    show "nodes ?w (abs_path ds) = Some Dir" using dir by simp
    show "abs_path ds \<notin> readonly ?w" using dir by simp
    show "\<forall>p\<in>set ?ps. snd p \<noteq> abs_path ds \<and> parent_dir (snd p) = abs_path ds \<and>
            snd p \<notin> readonly ?w \<and> nodes ?w (snd p) \<noteq> Some Dir"
      using targets abs_path_snoc_neq [OF ds] expectedFiles_clean
      by (auto simp add: parent_dir_abs_path clean_seg_def)
    show "nodes ?w (abs_path (ss @ [file])) = Some (File c)" using src by simp
  qed
  then show ?thesis
    by (simp add: settle_def seedCopies_abs_path [OF ss ds])
qed

section \<open>The example inputs, evaluated\<close>

lemmas disk_defs =
  disk_fresh_def disk_journal_def disk_no_template_def disk_no_settings_resource_def
  home_nodes_def resource_nodes_def

lemmas fs_defs =
  fs_access_def fs_mkdir_def create_error_def open_write_def read_all_def emit_error_def
  run_pipe_def settle_def parent_dir_def

lemma extensionPath_host_u: "extensionPath host_u = Some ''/ext''"
  by (simp add: host_u_def)

lemma resolve_default_dir:
  "path_resolve h [''/home/u/Journal'', ''.vscode''] = ''/home/u/Journal/.vscode''"
  by (simp add: path_resolve_def normalizeString_def isAbsolute_def)

lemma getBasePath_example: "getBasePath settings_empty host_u = Inr ''/home/u/Journal''"
  by (simp add: settings_empty_def host_u_def get_string_def
      getBasePath_def path_resolve_def normalizeString_def isAbsolute_def)

lemma configDirSetting_example:
  "configDirSetting settings_empty host_u = Inr ''/home/u/Journal/.vscode''"
  by (simp add: configDirSetting_def settings_empty_def host_u_def get_string_def
      getBasePath_def path_resolve_def normalizeString_def isAbsolute_def)

lemma resource_source_example: "path_resolve host_u [''/ext'', ''res''] = ''/ext/res''"
  by (simp add: host_u_def path_resolve_def normalizeString_def isAbsolute_def)

lemma template_path_example:
  "path_join [''/home/u/Journal/.vscode'', ''journal.page-template.md''] =
     ''/home/u/Journal/.vscode/journal.page-template.md''"
  by (simp add: path_join_def path_normalize_def normalizeString_def isAbsolute_def)

lemma seedCopies_example:
  "seedCopies ''/ext/res'' ''/home/u/Journal/.vscode'' =
     [(''/ext/res/settings.json'', ''/home/u/Journal/.vscode/settings.json''),
      (''/ext/res/journal.page-template.md'', ''/home/u/Journal/.vscode/journal.page-template.md''),
      (''/ext/res/journal.note-template.md'', ''/home/u/Journal/.vscode/journal.note-template.md''),
      (''/ext/res/journal.inline-templates.json'',
       ''/home/u/Journal/.vscode/journal.inline-templates.json'')]"
  by (simp add: seedCopies_def expectedFiles_def path_join_def path_normalize_def
      normalizeString_def isAbsolute_def)

lemma first_start_run:
  "await (getConfigPath settings_empty host_u) disk_fresh =
     (Inr (Resolved ''/home/u/Journal/.vscode''),
      disk_fresh\<lparr>pipes := seedCopies ''/ext/res'' ''/home/u/Journal/.vscode''\<rparr>)"
proof -
  have a: "fs_access disk_fresh ''/home/u/Journal/.vscode'' = Some ENOENT"
    by (simp add: fs_defs disk_defs)
  have m: "fs_mkdir disk_fresh ''/home/u/Journal/.vscode'' = Inl ENOENT"
    by (simp add: fs_defs disk_defs)
  have p: "pipes disk_fresh = []" by (simp add: disk_defs)
  show ?thesis
    by (simp add: await_getConfigPath [OF configDirSetting_example]
        chain_mkdir_fails [OF a m extensionPath_host_u] resource_source_example p)
qed

lemma journal_run:
  "await (getConfigPath settings_empty host_u) disk_journal =
     (Inr (Resolved ''/home/u/Journal/.vscode''),
      disk_journal\<lparr>nodes := (nodes disk_journal)(''/home/u/Journal/.vscode'' \<mapsto> Dir),
                    pipes := seedCopies ''/ext/res'' ''/home/u/Journal/.vscode''\<rparr>)"
proof -
  let ?w = "disk_journal\<lparr>nodes := (nodes disk_journal)(''/home/u/Journal/.vscode'' \<mapsto> Dir)\<rparr>"
  have a: "fs_access disk_journal ''/home/u/Journal/.vscode'' = Some ENOENT"
    by (simp add: fs_defs disk_defs)
  have m: "fs_mkdir disk_journal ''/home/u/Journal/.vscode'' = Inr ?w"
    by (simp add: fs_defs disk_defs)
  have t: "fs_access ?w ''/home/u/Journal/.vscode/journal.page-template.md'' = Some ENOENT"
    by (simp add: fs_defs disk_defs)
  have p: "pipes disk_journal = []" by (simp add: disk_defs)
  show ?thesis
    by (simp add: await_getConfigPath [OF configDirSetting_example]
        chain_mkdir_succeeds [OF a m extensionPath_host_u] resource_source_example
        template_path_example t p)
qed

lemma journal_settled:
  "map (nodes (settle (disk_journal\<lparr>nodes := (nodes disk_journal)(''/home/u/Journal/.vscode'' \<mapsto> Dir),
                    pipes := seedCopies ''/ext/res'' ''/home/u/Journal/.vscode''\<rparr>)))
     [''/home/u/Journal/.vscode'',
      ''/home/u/Journal/.vscode/settings.json'',
      ''/home/u/Journal/.vscode/journal.page-template.md'',
      ''/home/u/Journal/.vscode/journal.note-template.md'',
      ''/home/u/Journal/.vscode/journal.inline-templates.json''] =
   [Some Dir, Some (File ''{}''), Some (File ''# page''), Some (File ''# note''), Some (File ''[]'')]"
  by (simp add: seedCopies_example fs_defs disk_defs)

section \<open>Seeding never fails\<close>

text \<open>
  Claim C10. \<open>copyTask\<close> resolves its promise as soon as the pipe has been set up, on
  every disk: the copy is then still to be carried out (the disk holds no new file, and
  the copy is among the started ones), and no stream error has been seen. So the
  promise of \<open>initializeConfigDir\<close> is resolved whatever becomes of the four copies.
\<close>

theorem copyTask_resolves_unconditionally:
  assumes "initializeConfigDir h configDir = Inr p"
  shows "fst (copyTask source target file w) = Resolved () \<and>
         nodes (snd (copyTask source target file w)) = nodes w \<and>
         unhandled (snd (copyTask source target file w)) = unhandled w \<and>
         pipes (snd (copyTask source target file w)) =
           pipes w @ [(path_join [source, file], path_join [target, file])] \<and>
         fst (p w) = Resolved () \<and>
         nodes (snd (p w)) = nodes w \<and>
         unhandled (snd (p w)) = unhandled w"
proof (cases "extensionPath h")
  case None
  with assms show ?thesis by (simp add: initializeConfigDir_none)
next
  case (Some extPath)
  with assms show ?thesis
    by (auto simp add: initializeConfigDir_run copyTask_run)
qed

text \<open>
  On a disk whose resources lack \<^verbatim>\<open>settings.json\<close>, seeding still ends resolved.
\<close>

theorem copyTask_resolves_unconditionally_witness:
  "nodes disk_no_settings_resource ''/ext/res/settings.json'' = None \<and>
   (\<exists>p. initializeConfigDir host_u ''/home/u/Journal/.vscode'' = Inr p \<and>
        fst (p disk_no_settings_resource) = Resolved ()) \<and>
   fst (copyTask ''/ext/res'' ''/home/u/Journal/.vscode'' ''settings.json''
          disk_no_settings_resource) = Resolved ()"
proof -
  obtain p where p: "initializeConfigDir host_u ''/home/u/Journal/.vscode'' = Inr p"
    using initializeConfigDir_run [of host_u "''/ext''"] by (simp add: host_u_def)
  have "nodes disk_no_settings_resource ''/ext/res/settings.json'' = None"
    by (simp add: disk_no_settings_resource_def home_nodes_def resource_nodes_def)
  then show ?thesis
    using p copyTask_resolves_unconditionally [OF p] by blast
qed

text \<open>
  Claim C2. When one of the four files cannot be copied, seeding should fail with an
  error that names the file, the files already copied staying in place. With
  \<^verbatim>\<open>settings.json\<close> missing from the resources, the promise of
  \<open>initializeConfigDir\<close> is resolved; the read stream's error is raised later with no
  listener; the other three files are copied and stay, and the target
  \<^verbatim>\<open>settings.json\<close> is left empty.
\<close>

theorem missing_resource_goes_unreported:
  "nodes disk_no_settings_resource ''/ext/res/settings.json'' = None \<and>
   fst (await (initializeConfigDir host_u ''/home/u/Journal/.vscode'')
          disk_no_settings_resource) = Inr (Resolved ()) \<and>
   unhandled (settle (snd (await (initializeConfigDir host_u ''/home/u/Journal/.vscode'')
                             disk_no_settings_resource))) =
     [(ENOENT, ''/ext/res/settings.json'')] \<and>
   map (nodes (settle (snd (await (initializeConfigDir host_u ''/home/u/Journal/.vscode'')
                              disk_no_settings_resource))))
     [''/home/u/Journal/.vscode/settings.json'',
      ''/home/u/Journal/.vscode/journal.page-template.md'',
      ''/home/u/Journal/.vscode/journal.note-template.md'',
      ''/home/u/Journal/.vscode/journal.inline-templates.json''] =
     [Some (File []), Some (File ''# page''), Some (File ''# note''), Some (File ''[]'')]"
proof -
  have run: "await (initializeConfigDir host_u ''/home/u/Journal/.vscode'')
               disk_no_settings_resource =
             (Inr (Resolved ()),
              disk_no_settings_resource
                \<lparr>pipes := seedCopies ''/ext/res'' ''/home/u/Journal/.vscode''\<rparr>)"
    by (simp add: await_def initializeConfigDir_run [OF extensionPath_host_u]
        resource_source_example) (simp add: disk_defs)
  show ?thesis
    by (simp add: run) (simp add: seedCopies_example fs_defs disk_defs)
qed

section \<open>The directory the settings name\<close>

text \<open>
  Claim C6. With the \<^verbatim>\<open>extDir\<close> setting empty or unset and \<open>getBasePath\<close> answering
  \<^verbatim>\<open>/home/u/Journal\<close>, the configuration directory is \<^verbatim>\<open>/home/u/Journal/.vscode\<close>:
  this is the path lines 74-81 compute, and the path the promise is resolved with.
  The promise is rejected only on a host that knows no extension of the name the code
  asks for, when seeding is needed.
\<close>

theorem getConfigPath_default_dir:
  assumes "get_string config ''extDir'' = None \<or> get_string config ''extDir'' = Some []"
      and "getBasePath config h = Inr ''/home/u/Journal''"
  shows "configDirSetting config h = Inr ''/home/u/Journal/.vscode'' \<and>
         (fst (await (getConfigPath config h) w) = Inr (Resolved ''/home/u/Journal/.vscode'') \<or>
          (extensionPath h = None \<and>
           fst (await (getConfigPath config h) w) =
             Inr (Rejected (Prefixed ''Failed to initialize the configuration: ''
                              (Exception TypeError)))))"
proof -
  have dir: "configDirSetting config h = Inr ''/home/u/Journal/.vscode''"
    using assms by (auto simp add: configDirSetting_def resolve_default_dir)
  show ?thesis
    using dir chain_outcome [of h "''/home/u/Journal/.vscode''" w]
    by (auto simp add: await_getConfigPath [OF dir])
qed

text \<open>
  The empty settings on a host whose home directory is \<^verbatim>\<open>/home/u\<close>.
\<close>

theorem getConfigPath_default_dir_witness:
  "get_string settings_empty ''extDir'' = Some [] \<and>
   getBasePath settings_empty host_u = Inr ''/home/u/Journal'' \<and>
   configDirSetting settings_empty host_u = Inr ''/home/u/Journal/.vscode'' \<and>
   fst (await (getConfigPath settings_empty host_u) disk_journal) =
     Inr (Resolved ''/home/u/Journal/.vscode'')"
proof -
  have e: "get_string settings_empty ''extDir'' = Some []"
    by (simp add: settings_empty_def get_string_def)
  have x: "extensionPath host_u \<noteq> None" by (simp add: host_u_def)
  show ?thesis
    using e getBasePath_example x
      getConfigPath_default_dir [OF disjI2 [OF e] getBasePath_example, of disk_journal]
    by auto
qed

section \<open>When the directory cannot be created\<close>

text \<open>
  Claim C1. When the directory is not accessible and cannot be created, the request
  should end rejected, with no seeding. On a first start the home directory has no
  \<^verbatim>\<open>Journal\<close> folder, so \<^verbatim>\<open>fs.mkdir\<close> of \<^verbatim>\<open>/home/u/Journal/.vscode\<close> fails; the
  handler of line 93, written for a missing template, receives that failure too, starts
  the four copies, and the promise ends resolved with the path.
\<close>

theorem mkdir_failure_is_swallowed:
  "fs_access disk_fresh ''/home/u/Journal/.vscode'' = Some ENOENT \<and>
   fs_mkdir disk_fresh ''/home/u/Journal/.vscode'' = Inl ENOENT \<and>
   fst (await (getConfigPath settings_empty host_u) disk_fresh) =
     Inr (Resolved ''/home/u/Journal/.vscode'') \<and>
   pipes (snd (await (getConfigPath settings_empty host_u) disk_fresh)) =
     seedCopies ''/ext/res'' ''/home/u/Journal/.vscode''"
  by (simp add: first_start_run) (simp add: fs_defs disk_defs)

text \<open>
  Claim C3. When \<open>getConfigPath\<close> resolves, the directory should exist and hold the
  page template, and all four files after a seeding. On the first start of C1 the
  promise is resolved and seeding has run, yet neither the directory nor any of the
  four files exists, also after every copy that was started has ended.
\<close>

theorem resolved_without_directory:
  "fst (await (getConfigPath settings_empty host_u) disk_fresh) =
     Inr (Resolved ''/home/u/Journal/.vscode'') \<and>
   map (nodes (settle (snd (await (getConfigPath settings_empty host_u) disk_fresh))))
     [''/home/u/Journal/.vscode'',
      ''/home/u/Journal/.vscode/settings.json'',
      ''/home/u/Journal/.vscode/journal.page-template.md'',
      ''/home/u/Journal/.vscode/journal.note-template.md'',
      ''/home/u/Journal/.vscode/journal.inline-templates.json''] =
     [None, None, None, None, None]"
  by (simp add: first_start_run) (simp add: seedCopies_example fs_defs disk_defs)

section \<open>Calling again\<close>

text \<open>
  Claim C4. After a call of \<open>getConfigPath\<close> that resolved with a directory, once the
  copies it started are done and the directory and its page template are there, a
  second call resolves with the same directory and leaves the disk as it was: no file
  is created or changed and no copy is started.
\<close>

theorem getConfigPath_idempotent:
  assumes "await (getConfigPath config h) w0 = (Inr (Resolved dir), w1)"
      and "fs_access (settle w1) dir = None"
      and "fs_access (settle w1) (path_join [dir, ''journal.page-template.md'']) = None"
  shows "await (getConfigPath config h) (settle w1) = (Inr (Resolved dir), settle w1)"
proof -
  have dir: "configDirSetting config h = Inr dir"
    by (rule await_getConfigPath_resolved [OF assms(1)])
  show ?thesis
    by (simp add: await_getConfigPath [OF dir] chain_present [OF assms(2) assms(3)])
qed

text \<open>
  The first call creates and seeds the directory on \<open>disk_journal\<close>; the second finds
  everything in place.
\<close>

theorem getConfigPath_idempotent_witness:
  "fst (await (getConfigPath settings_empty host_u) disk_journal) =
     Inr (Resolved ''/home/u/Journal/.vscode'') \<and>
   fs_access (settle (snd (await (getConfigPath settings_empty host_u) disk_journal)))
     ''/home/u/Journal/.vscode'' = None \<and>
   fs_access (settle (snd (await (getConfigPath settings_empty host_u) disk_journal)))
     ''/home/u/Journal/.vscode/journal.page-template.md'' = None \<and>
   await (getConfigPath settings_empty host_u)
     (settle (snd (await (getConfigPath settings_empty host_u) disk_journal))) =
     (Inr (Resolved ''/home/u/Journal/.vscode''),
      settle (snd (await (getConfigPath settings_empty host_u) disk_journal)))"
proof -
  let ?w1 = "disk_journal\<lparr>nodes := (nodes disk_journal)(''/home/u/Journal/.vscode'' \<mapsto> Dir),
                    pipes := seedCopies ''/ext/res'' ''/home/u/Journal/.vscode''\<rparr>"
  have d: "fs_access (settle ?w1) ''/home/u/Journal/.vscode'' = None"
    using journal_settled by (simp add: fs_access_def)
  have t: "fs_access (settle ?w1)
             (path_join [''/home/u/Journal/.vscode'', ''journal.page-template.md'']) = None"
    using journal_settled by (simp add: fs_access_def template_path_example)
  show ?thesis
    using d t getConfigPath_idempotent [OF journal_run d t]
    by (simp add: journal_run template_path_example)
qed

section \<open>A directory that lacks its page template\<close>

text \<open>
  Claim C5. When the configuration directory exists and \<^verbatim>\<open>journal.page-template.md\<close> is
  missing from it, \<open>getConfigPath\<close> starts a copy of every one of the four default
  files from the resource directory into the configuration directory, not of the
  missing one alone. Where the resource directory holds the four files, no other copy
  is under way and the directory and the four targets can be written, each target ends
  with the content of its source.
\<close>

theorem getConfigPath_reseeds_all_four:
  assumes "isAbsolute (cwd h)"
      and "configDirSetting config h = Inr dir"
      and "extensionPath h = Some extPath"
      and "fs_access w dir = None"
      and "fs_access w (path_join [dir, ''journal.page-template.md'']) \<noteq> None"
  shows "await (getConfigPath config h) w =
           (Inr (Resolved dir),
            w\<lparr>pipes := pipes w @ seedCopies (path_resolve h [extPath, ''res'']) dir\<rparr>) \<and>
         (pipes w = [] \<and> nodes w dir = Some Dir \<and> dir \<notin> readonly w \<and>
          path_resolve h [extPath, ''res''] \<noteq> dir \<and>
          (\<forall>file\<in>set expectedFiles.
             (\<exists>c. nodes w (path_join [path_resolve h [extPath, ''res''], file]) = Some (File c)) \<and>
             path_join [dir, file] \<notin> readonly w \<and>
             nodes w (path_join [dir, file]) \<noteq> Some Dir) \<longrightarrow>
          (\<forall>file\<in>set expectedFiles.
             nodes (settle (snd (await (getConfigPath config h) w))) (path_join [dir, file]) =
             nodes w (path_join [path_resolve h [extPath, ''res''], file])))"
proof -
  let ?source = "path_resolve h [extPath, ''res'']"
  obtain e where e: "fs_access w (path_join [dir, ''journal.page-template.md'']) = Some e"
    using assms(5) by auto
  have run: "await (getConfigPath config h) w =
               (Inr (Resolved dir), w\<lparr>pipes := pipes w @ seedCopies ?source dir\<rparr>)"
    by (simp add: await_getConfigPath [OF assms(2)]
        chain_template_missing [OF assms(4) e assms(3)])
  obtain ds where ds: "\<forall>s\<in>set ds. clean_seg s" "dir = abs_path ds"
    using configDirSetting_abs_path [OF assms(1,2)] by auto
  obtain ss where ss: "\<forall>s\<in>set ss. clean_seg s" "?source = abs_path ss"
    using path_resolve_abs_path [OF assms(1), of "[extPath, ''res'']"] by auto
  have copied: "nodes (settle (snd (await (getConfigPath config h) w))) (path_join [dir, g]) =
                nodes w (path_join [?source, g])"
    if contract: "pipes w = []" "nodes w dir = Some Dir" "dir \<notin> readonly w" "?source \<noteq> dir"
      "\<forall>file\<in>set expectedFiles.
         (\<exists>c. nodes w (path_join [?source, file]) = Some (File c)) \<and>
         path_join [dir, file] \<notin> readonly w \<and>
         nodes w (path_join [dir, file]) \<noteq> Some Dir"
      and mem: "g \<in> set expectedFiles"
    for g
  proof -
    have joins: "path_join [dir, f] = abs_path (ds @ [f])"
                "path_join [?source, f] = abs_path (ss @ [f])"
      if "f \<in> set expectedFiles" for f
      using that ds ss by (simp_all add: path_join_abs_path expectedFiles_clean)
    obtain c where c: "nodes w (abs_path (ss @ [g])) = Some (File c)"
      using contract(5) mem joins(2) [OF mem] by auto
    have targets: "\<forall>file\<in>set expectedFiles.
             abs_path (ds @ [file]) \<notin> readonly w \<and> nodes w (abs_path (ds @ [file])) \<noteq> Some Dir"
      using contract(5) joins(1) by auto
    have "nodes (settle (w\<lparr>pipes := seedCopies (abs_path ss) (abs_path ds)\<rparr>))
            (abs_path (ds @ [g])) = Some (File c)"
      using contract(2,3,4) ds(2) ss(2)
      by (intro settle_seedCopies [OF ss(1) ds(1) _ _ _ targets mem c]) simp_all
    then show ?thesis
      using c contract(1) ds(2) ss(2) joins [OF mem] by (simp add: run)
  qed
  show ?thesis
    using run copied by blast
qed

text \<open>
  On \<open>disk_no_template\<close> the page template is missing and \<^verbatim>\<open>settings.json\<close> has been
  edited: all four files end as the bundled ones, the edited settings included.
\<close>

theorem getConfigPath_reseeds_all_four_witness:
  "isAbsolute (cwd host_u) \<and>
   fs_access disk_no_template ''/home/u/Journal/.vscode'' = None \<and>
   fs_access disk_no_template ''/home/u/Journal/.vscode/journal.page-template.md'' = Some ENOENT \<and>
   nodes disk_no_template ''/home/u/Journal/.vscode/settings.json'' =
     Some (File ''edited by the user'') \<and>
   await (getConfigPath settings_empty host_u) disk_no_template =
     (Inr (Resolved ''/home/u/Journal/.vscode''),
      disk_no_template\<lparr>pipes := seedCopies ''/ext/res'' ''/home/u/Journal/.vscode''\<rparr>) \<and>
   map (nodes (settle (snd (await (getConfigPath settings_empty host_u) disk_no_template))))
     [''/home/u/Journal/.vscode/settings.json'',
      ''/home/u/Journal/.vscode/journal.page-template.md'',
      ''/home/u/Journal/.vscode/journal.note-template.md'',
      ''/home/u/Journal/.vscode/journal.inline-templates.json''] =
     [Some (File ''{}''), Some (File ''# page''), Some (File ''# note''), Some (File ''[]'')]"
proof -
  have c: "isAbsolute (cwd host_u)" by (simp add: host_u_def isAbsolute_def)
  have a: "fs_access disk_no_template ''/home/u/Journal/.vscode'' = None"
    by (simp add: fs_defs disk_defs)
  have t: "fs_access disk_no_template ''/home/u/Journal/.vscode/journal.page-template.md'' =
             Some ENOENT"
    by (simp add: fs_defs disk_defs)
  have t': "fs_access disk_no_template
              (path_join [''/home/u/Journal/.vscode'', ''journal.page-template.md'']) \<noteq> None"
    using t by (simp add: template_path_example)
  have s: "nodes disk_no_template ''/home/u/Journal/.vscode/settings.json'' =
             Some (File ''edited by the user'')"
    by (simp add: disk_defs)
  have p: "pipes disk_no_template = []" by (simp add: disk_defs)
  have d: "nodes disk_no_template ''/home/u/Journal/.vscode'' = Some Dir"
    by (simp add: disk_defs)
  have r: "''/home/u/Journal/.vscode'' \<notin> readonly disk_no_template"
    by (simp add: disk_defs)
  have joins: "map (\<lambda>file. path_join [''/home/u/Journal/.vscode'', file]) expectedFiles =
                 map snd (seedCopies ''/ext/res'' ''/home/u/Journal/.vscode'')"
              "map (\<lambda>file. path_join [''/ext/res'', file]) expectedFiles =
                 map fst (seedCopies ''/ext/res'' ''/home/u/Journal/.vscode'')"
    by (simp_all add: seedCopies_def comp_def)
  have contract: "\<forall>file\<in>set expectedFiles.
         (\<exists>c. nodes disk_no_template (path_join [''/ext/res'', file]) = Some (File c)) \<and>
         path_join [''/home/u/Journal/.vscode'', file] \<notin> readonly disk_no_template \<and>
         nodes disk_no_template (path_join [''/home/u/Journal/.vscode'', file]) \<noteq> Some Dir"
    by (simp add: expectedFiles_def path_join_def path_normalize_def normalizeString_def
        isAbsolute_def) (simp add: disk_defs)
  note seeded = getConfigPath_reseeds_all_four
    [OF c configDirSetting_example extensionPath_host_u a t', unfolded resource_source_example]
  have ne: "''/ext/res'' \<noteq> ''/home/u/Journal/.vscode''" by simp
  have run: "await (getConfigPath settings_empty host_u) disk_no_template =
     (Inr (Resolved ''/home/u/Journal/.vscode''),
      disk_no_template\<lparr>pipes := seedCopies ''/ext/res'' ''/home/u/Journal/.vscode''\<rparr>)"
    using seeded p by simp
  have "\<forall>file\<in>set expectedFiles.
          nodes (settle (snd (await (getConfigPath settings_empty host_u) disk_no_template)))
            (path_join [''/home/u/Journal/.vscode'', file]) =
          nodes disk_no_template (path_join [''/ext/res'', file])"
    using seeded [THEN conjunct2] p d r ne contract by blast
  then have "map (nodes (settle (snd (await (getConfigPath settings_empty host_u) disk_no_template))))
               (map snd (seedCopies ''/ext/res'' ''/home/u/Journal/.vscode'')) =
             map (nodes disk_no_template)
               (map fst (seedCopies ''/ext/res'' ''/home/u/Journal/.vscode''))"
    unfolding joins [symmetric] by (simp add: comp_def)
  then have "map (nodes (settle (snd (await (getConfigPath settings_empty host_u) disk_no_template))))
     [''/home/u/Journal/.vscode/settings.json'',
      ''/home/u/Journal/.vscode/journal.page-template.md'',
      ''/home/u/Journal/.vscode/journal.note-template.md'',
      ''/home/u/Journal/.vscode/journal.inline-templates.json''] =
     [Some (File ''{}''), Some (File ''# page''), Some (File ''# note''), Some (File ''[]'')]"
    unfolding seedCopies_example by (simp add: disk_defs)
  then show ?thesis
    using c a t s run by simp
qed

end
